theory Spec2Isabelle
  imports Complex_Main
begin

section \<open>Python values used by app.py\<close>

subsection \<open>Strings\<close>

text \<open>
  A Python \<open>str\<close> is a sequence of Unicode code points. Column names, titles and
  messages of \<^verbatim>\<open>app.py\<close> are modelled as lists of code points; \<open>lit\<close> turns an
  ASCII literal into such a list, and the few non-ASCII symbols of the source's
  literals are given by their code points.
\<close>

type_synonym str = "nat list"

definition lit :: "string \<Rightarrow> str" where
  "lit cs = map of_char cs"

text \<open>
  \<^verbatim>\<open>str.lower()\<close>. The program only asks whether the lowered name is one of a few
  ASCII words. The code points whose lowercase form is an ASCII letter are \<open>A\<close> to
  \<open>Z\<close> and the Kelvin sign U+212A (lowered to \<open>k\<close>); every other cased letter is
  lowered by Python to a non-ASCII string and is left as it is here, which gives the
  same answer to each membership test of the program.
\<close>

definition lower_cp :: "nat \<Rightarrow> nat" where
  "lower_cp c =
     (if 0x41 \<le> c \<and> c \<le> 0x5A then c + 0x20
      else if c = 0x212A then 0x6B
      else c)"

definition lower :: "str \<Rightarrow> str" where
  "lower s = map lower_cp s"

text \<open>\<^verbatim>\<open>str.isspace\<close> on one code point: the whitespace that \<^verbatim>\<open>str.strip()\<close> removes.\<close>

definition isspace :: "nat \<Rightarrow> bool" where
  "isspace c \<longleftrightarrow>
     (0x09 \<le> c \<and> c \<le> 0x0D) \<or> (0x1C \<le> c \<and> c \<le> 0x20) \<or> c = 0x85 \<or> c = 0xA0 \<or>
     c = 0x1680 \<or> (0x2000 \<le> c \<and> c \<le> 0x200A) \<or> c = 0x2028 \<or> c = 0x2029 \<or>
     c = 0x202F \<or> c = 0x205F \<or> c = 0x3000"

definition strip :: "str \<Rightarrow> str" where
  "strip s = rev (dropWhile isspace (rev (dropWhile isspace s)))"

text \<open>\<^verbatim>\<open>text.split("\n")\<close>: the pieces between the separators, never an empty list.\<close>

fun split_on :: "nat \<Rightarrow> str \<Rightarrow> str list" where
  "split_on sep [] = [[]]"
| "split_on sep (c # cs) =
     (if c = sep then [] # split_on sep cs
      else (case split_on sep cs of
              [] \<Rightarrow> [[c]]
            | p # ps \<Rightarrow> (c # p) # ps))"

text \<open>\<^verbatim>\<open>str(i)\<close> for the chart numbers of the f-strings.\<close>

fun digits :: "nat \<Rightarrow> str" where
  "digits n = (if n < 10 then [0x30 + n] else digits (n div 10) @ [0x30 + n mod 10])"

text \<open>
  Truthiness of an optional string (\<open>None\<close> and \<open>""\<close> are false), and the
  expression \<^verbatim>\<open>a or b\<close> on it.
\<close>

definition truthy :: "str option \<Rightarrow> bool" where
  "truthy v = (case v of None \<Rightarrow> False | Some s \<Rightarrow> s \<noteq> [])"

definition or_else :: "str option \<Rightarrow> str \<Rightarrow> str" where
  "or_else v d = (case v of None \<Rightarrow> d | Some s \<Rightarrow> if s = [] then d else s)"

text \<open>The symbols of the source's literals that are not ASCII.\<close>

definition warning_sign :: str where
  "warning_sign = [0x26A0, 0xFE0F]"

definition bar_chart_sign :: str where
  "bar_chart_sign = [0x1F4CA]"

definition chart_up_sign :: str where
  "chart_up_sign = [0x1F4C8]"

definition magnifier_sign :: str where
  "magnifier_sign = [0x1F50D]"

definition globe_sign :: str where
  "globe_sign = [0x1F30D]"

definition world_map_sign :: str where
  "world_map_sign = [0x1F5FA, 0xFE0F]"

subsection \<open>Exceptions\<close>

text \<open>
  A function that can raise returns \<open>exn + 'a\<close>, \<open>Inl\<close> the exception. \<open>Raised\<close>
  is an exception of a library call (pandas, the OpenAI client, plotly's image export,
  reportlab, python-docx); all of them derive from \<^verbatim>\<open>Exception\<close>, as \<open>IndexError\<close>
  and \<open>AttributeError\<close> do. The string is \<^verbatim>\<open>str(e)\<close>.
\<close>

datatype exn = IndexError str | AttributeError str | Raised str

fun exn_str :: "exn \<Rightarrow> str" where
  "exn_str (IndexError m) = m"
| "exn_str (AttributeError m) = m"
| "exn_str (Raised m) = m"

definition and_then :: "exn + 'a \<Rightarrow> ('a \<Rightarrow> exn + 'b) \<Rightarrow> exn + 'b" where
  "and_then r f = (case r of Inl e \<Rightarrow> Inl e | Inr v \<Rightarrow> f v)"

text \<open>\<^verbatim>\<open>xs[i]\<close> for a constant index \<open>i \<ge> 0\<close>: out of range raises.\<close>

definition getitem :: "'a list \<Rightarrow> nat \<Rightarrow> exn + 'a" where
  "getitem xs i =
     (if i < length xs then Inr (xs ! i)
      else Inl (IndexError (lit ''list index out of range'')))"

subsection \<open>Data frames\<close>

text \<open>
  A \<^verbatim>\<open>DataFrame\<close> read by \<^verbatim>\<open>pd.read_csv\<close>: its columns in order, each a name with
  the dtype pandas inferred, and the rows as the text of their cells. The chart
  helpers read the names and the dtypes only.
  \<^verbatim>\<open>select_dtypes(include="number")\<close> keeps the integer and floating point columns;
  \<open>bool\<close> and \<open>object\<close> columns are not numbers.
\<close>

datatype dtype = Int64 | UInt64 | Float64 | Bool | Object

fun is_number :: "dtype \<Rightarrow> bool" where
  "is_number Int64 = True"
| "is_number UInt64 = True"
| "is_number Float64 = True"
| "is_number Bool = False"
| "is_number Object = False"

record dataframe =
  columns :: "(str \<times> dtype) list"
  rows :: "str list list"

definition column_names :: "dataframe \<Rightarrow> str list" where
  "column_names df = map fst (columns df)"

definition numeric_cols :: "dataframe \<Rightarrow> str list" where
  "numeric_cols df = map fst (filter (\<lambda>c. is_number (snd c)) (columns df))"

definition non_numeric_cols :: "dataframe \<Rightarrow> str list" where
  "non_numeric_cols df = map fst (filter (\<lambda>c. \<not> is_number (snd c)) (columns df))"

subsection \<open>Figures\<close>

text \<open>
  A plotly figure is what the call of \<^verbatim>\<open>plotly.express\<close> that made it was given,
  with the layout updates applied since. An argument that a call does not pass is
  \<open>None\<close> (\<open>False\<close> for \<open>markers\<close>). The calls are constructors: drawing happens
  when the figure is shown or exported.
\<close>

datatype chart_kind = Line | Bar | Scatter | Choropleth

record figure =
  fig_kind :: chart_kind
  data_frame :: "dataframe option"
  fig_x :: "str option"
  fig_y :: "str option"
  fig_title :: str
  markers :: bool
  fig_text :: "str option"
  locations :: "str option"
  locationmode :: "str option"
  fig_color :: "str option"
  color_continuous_scale :: "str option"
  geojson :: "str option"
  featureidkey :: "str option"
  geos_fitbounds :: "str option"
  geos_visible :: "bool option"
  template :: "str option"

definition px_scatter :: "dataframe option \<Rightarrow> str option \<Rightarrow> str option \<Rightarrow> str \<Rightarrow> figure" where
  "px_scatter df x y title =
     \<lparr>fig_kind = Scatter, data_frame = df, fig_x = x, fig_y = y, fig_title = title,
      markers = False, fig_text = None, locations = None, locationmode = None,
      fig_color = None, color_continuous_scale = None, geojson = None,
      featureidkey = None, geos_fitbounds = None, geos_visible = None, template = None\<rparr>"

definition px_line :: "dataframe \<Rightarrow> str \<Rightarrow> str \<Rightarrow> str \<Rightarrow> bool \<Rightarrow> figure" where
  "px_line df x y title m =
     \<lparr>fig_kind = Line, data_frame = Some df, fig_x = Some x, fig_y = Some y,
      fig_title = title, markers = m, fig_text = None, locations = None,
      locationmode = None, fig_color = None, color_continuous_scale = None,
      geojson = None, featureidkey = None, geos_fitbounds = None, geos_visible = None,
      template = None\<rparr>"

definition px_bar :: "dataframe \<Rightarrow> str \<Rightarrow> str \<Rightarrow> str \<Rightarrow> str \<Rightarrow> figure" where
  "px_bar df x y title txt =
     \<lparr>fig_kind = Bar, data_frame = Some df, fig_x = Some x, fig_y = Some y,
      fig_title = title, markers = False, fig_text = Some txt, locations = None,
      locationmode = None, fig_color = None, color_continuous_scale = None,
      geojson = None, featureidkey = None, geos_fitbounds = None, geos_visible = None,
      template = None\<rparr>"

definition px_choropleth ::
  "dataframe \<Rightarrow> str option \<Rightarrow> str option \<Rightarrow> str \<Rightarrow> str option \<Rightarrow> str \<Rightarrow> str \<Rightarrow> str \<Rightarrow> figure" where
  "px_choropleth df gj key loc mode col scale title =
     \<lparr>fig_kind = Choropleth, data_frame = Some df, fig_x = None, fig_y = None,
      fig_title = title, markers = False, fig_text = None, locations = Some loc,
      locationmode = mode, fig_color = Some col, color_continuous_scale = Some scale,
      geojson = gj, featureidkey = key, geos_fitbounds = None, geos_visible = None,
      template = None\<rparr>"

definition update_layout :: "figure \<Rightarrow> str \<Rightarrow> figure" where
  "update_layout fig t = fig\<lparr>template := Some t\<rparr>"

definition update_geos :: "figure \<Rightarrow> str \<Rightarrow> bool \<Rightarrow> figure" where
  "update_geos fig fb vis = fig\<lparr>geos_fitbounds := Some fb, geos_visible := Some vis\<rparr>"

definition plotly_dark :: str where
  "plotly_dark = lit ''plotly_dark''"

section \<open>Chart helpers\<close>

text \<open>
  \<^verbatim>\<open>auto_chart\<close>, \<^verbatim>\<open>multi_graphs\<close> and \<^verbatim>\<open>map_chart\<close> of \<^verbatim>\<open>app.py\<close>, branch by
  branch. Every list access of the source is a \<open>getitem\<close>, so that an access out of
  range would show as an \<open>IndexError\<close>.
\<close>

definition time_aliases :: "str list" where
  "time_aliases = [lit ''tahun'', lit ''year'', lit ''date'', lit ''tarikh'']"

definition time_like :: "dataframe \<Rightarrow> str list" where
  "time_like df = filter (\<lambda>c. lower c \<in> set time_aliases) (column_names df)"

definition auto_chart :: "dataframe \<Rightarrow> exn + figure" where
  "auto_chart df =
     (if numeric_cols df = [] then
        Inr (update_layout
               (px_scatter None None None (warning_sign @ lit '' Tiada data numerik ditemui.''))
               plotly_dark)
      else
        and_then
          (if time_like df \<noteq> [] then
             and_then (getitem (time_like df) 0) (\<lambda>x.
             and_then (getitem (numeric_cols df) 0) (\<lambda>y.
               Inr (px_line df x y (lit ''Trend '' @ y @ lit '' mengikut '' @ x) True)))
           else if non_numeric_cols df \<noteq> [] then
             and_then (getitem (non_numeric_cols df) 0) (\<lambda>x.
             and_then (getitem (numeric_cols df) 0) (\<lambda>y.
               Inr (px_bar df x y (lit ''Perbandingan '' @ y @ lit '' mengikut '' @ x) y)))
           else
             and_then (getitem (column_names df) 0) (\<lambda>x.
             and_then (getitem (numeric_cols df) 0) (\<lambda>y.
               Inr (px_scatter (Some df) (Some x) (Some y)
                      (lit ''Hubungan '' @ x @ lit '' vs '' @ y)))))
          (\<lambda>fig. Inr (update_layout fig plotly_dark)))"

definition multi_graphs :: "dataframe \<Rightarrow> exn + figure list" where
  "multi_graphs df =
     (if numeric_cols df = [] then Inr []
      else
        and_then (getitem (column_names df) 0) (\<lambda>x.
        and_then (getitem (numeric_cols df) 0) (\<lambda>y.
          let f1 = px_line df x y
                     (chart_up_sign @ lit '' Line Chart '' @ y @ lit '' vs '' @ x) True;
              f2 = px_bar df x y
                     (bar_chart_sign @ lit '' Bar Chart '' @ y @ lit '' vs '' @ x) y;
              f3 = px_scatter (Some df) (Some x) (Some y)
                     (magnifier_sign @ lit '' Scatter Plot '' @ y @ lit '' vs '' @ x)
          in Inr (map (\<lambda>f. update_layout f plotly_dark) [f1, f2, f3]))))"

definition geo_aliases :: "str list" where
  "geo_aliases =
     [lit ''negeri'', lit ''state'', lit ''daerah'', lit ''region'', lit ''country'',
      lit ''negara'']"

definition geo_cols :: "dataframe \<Rightarrow> str list" where
  "geo_cols df = filter (\<lambda>c. lower c \<in> set geo_aliases) (column_names df)"

definition world_aliases :: "str list" where
  "world_aliases = [lit ''country'', lit ''negara'', lit ''state'']"

definition malaysia_geojson :: str where
  "malaysia_geojson =
     lit ''https://raw.githubusercontent.com/sabapathy12/geojson-malaysia/master/malaysia-states.geojson''"

definition map_chart :: "dataframe \<Rightarrow> exn + figure option" where
  "map_chart df =
     (if geo_cols df = [] \<or> numeric_cols df = [] then Inr None
      else
        and_then (getitem (geo_cols df) 0) (\<lambda>geo.
        and_then (getitem (numeric_cols df) 0) (\<lambda>val.
          let fig =
            (if lower geo \<in> set world_aliases then
               px_choropleth df None None geo (Some (lit ''country names'')) val
                 (lit ''Viridis'') (globe_sign @ lit '' Peta Dunia: '' @ val)
             else
               update_geos
                 (px_choropleth df (Some malaysia_geojson) (Some (lit ''properties.name''))
                    geo None val (lit ''Blues'')
                    (world_map_sign @ lit '' Peta Malaysia: '' @ val))
                 (lit ''locations'') False)
          in Inr (Some (update_layout fig plotly_dark)))))"

section \<open>The outside world\<close>

text \<open>
  What the libraries answer. \<^verbatim>\<open>pd.read_csv\<close> is given a path or URL string, or a
  \<^verbatim>\<open>StringIO\<close> buffer; the uploaded file is Gradio's object, read through its
  \<^verbatim>\<open>name\<close>. Each call either returns or raises, and the pipeline is defined for
  every such behaviour: a \<open>world\<close> fixes, for each call and its arguments, which of
  the two happens. Within one run no call is made twice with the same arguments.
\<close>

datatype csv_input = Path str | StringIO str

datatype upload = Upload (file_name: str)

record request =
  req_model :: str
  req_messages :: "(str \<times> str) list"
  req_temperature :: rat

datatype flowable = Paragraph str str | Spacer nat nat | RLImage str nat nat

datatype docx_item = Heading str nat | DocParagraph str | Picture str nat

record world =
  read_csv :: "csv_input \<Rightarrow> exn + dataframe"
  head_to_string :: "dataframe \<Rightarrow> exn + str"
  chat_completions_create :: "request \<Rightarrow> exn + str option list"
  gettempdir :: str
  write_image :: "figure \<Rightarrow> str \<Rightarrow> nat \<Rightarrow> exn option"
  pdf_build :: "str \<Rightarrow> flowable list \<Rightarrow> exn option"
  docx_save :: "str \<Rightarrow> docx_item list \<Rightarrow> exn option"

text \<open>
  \<^item> \<open>head_to_string\<close> is \<^verbatim>\<open>df.head().to_string()\<close>;
  \<^item> \<open>chat_completions_create\<close> returns the \<^verbatim>\<open>message.content\<close> of each choice of
    the response (\<open>None\<close> when the message has no text);
  \<^item> \<open>write_image f path scale\<close> is \<^verbatim>\<open>f.write_image(path, scale=scale)\<close>;
  \<^item> \<open>pdf_build path story\<close> stands for making the flowables of \<open>story\<close> and
    \<^verbatim>\<open>SimpleDocTemplate(path, pagesize=A4).build(story)\<close>, and
    \<open>docx_save path items\<close> for filling a \<^verbatim>\<open>Document\<close> with \<open>items\<close> and
    saving it at \<open>path\<close>; \<open>Some e\<close> is the exception raised on the way.
\<close>

text \<open>\<^verbatim>\<open>os.path.join\<close> of two parts, on a POSIX system.\<close>

definition path_join :: "str \<Rightarrow> str \<Rightarrow> str" where
  "path_join a b =
     (if take 1 b = [0x2F] then b
      else if a = [] \<or> take 1 (rev a) = [0x2F] then a @ b
      else a @ [0x2F] @ b)"

section \<open>Narrative request\<close>

definition system_prompt :: str where
  "system_prompt =
     lit ''You are an AIzz Data Analyst. Jelaskan data dalam 3'' @ [0x2013] @
     lit ''5 ayat mudah difahami, sesuai untuk pelajar.''"

definition ask_ai :: "world \<Rightarrow> str \<Rightarrow> str \<Rightarrow> exn + str" where
  "ask_ai w question df_head =
     (let msgs =
        [(lit ''system'', system_prompt),
         (lit ''user'', lit ''Contoh data:'' @ [0x0A] @ df_head),
         (lit ''user'', lit ''Soalan: '' @ question)]
      in
        and_then
          (chat_completions_create w
             \<lparr>req_model = lit ''gpt-4o-mini'', req_messages = msgs, req_temperature = 4 / 10\<rparr>)
          (\<lambda>choices.
        and_then (getitem choices 0) (\<lambda>content.
          case content of
            None \<Rightarrow>
              Inl (AttributeError
                     ([0x27] @ lit ''NoneType'' @ [0x27] @ lit '' object has no attribute '' @
                      [0x27] @ lit ''strip'' @ [0x27]))
          | Some s \<Rightarrow> Inr (strip s))))"

section \<open>Export\<close>

fun save_images_from :: "world \<Rightarrow> nat \<Rightarrow> figure list \<Rightarrow> exn + str list" where
  "save_images_from w i [] = Inr []"
| "save_images_from w i (f # fs) =
     (let path = path_join (gettempdir w) (lit ''chart_'' @ digits i @ lit ''.png'') in
      case write_image w f path 2 of
        Some e \<Rightarrow> Inl e
      | None \<Rightarrow> and_then (save_images_from w (Suc i) fs) (\<lambda>paths. Inr (path # paths)))"

definition save_images :: "world \<Rightarrow> figure list \<Rightarrow> exn + str list" where
  "save_images w figs = save_images_from w 1 figs"

definition export_pdf :: "world \<Rightarrow> str \<Rightarrow> str \<Rightarrow> str list \<Rightarrow> exn + str" where
  "export_pdf w title text images =
     (let path = path_join (gettempdir w) (lit ''laporan.pdf'');
          story =
            [Paragraph title (lit ''Title''), Spacer 1 12,
             Paragraph (lit ''Analisis Ringkas'') (lit ''Heading2'')] @
            map (\<lambda>p. Paragraph p (lit ''Normal'')) (split_on 0x0A text) @
            [Spacer 1 12] @
            concat (map (\<lambda>(i, p).
                      [Paragraph (lit ''Graf '' @ digits i) (lit ''Heading3''),
                       RLImage p 400 250, Spacer 1 12])
                    (enumerate 1 images))
      in case pdf_build w path story of Some e \<Rightarrow> Inl e | None \<Rightarrow> Inr path)"

definition export_docx :: "world \<Rightarrow> str \<Rightarrow> str \<Rightarrow> str list \<Rightarrow> exn + str" where
  "export_docx w title text images =
     (let path = path_join (gettempdir w) (lit ''laporan.docx'');
          items =
            [Heading title 1, Heading (lit ''Analisis Ringkas'') 2] @
            map DocParagraph (split_on 0x0A text) @
            concat (map (\<lambda>(i, p). [Heading (lit ''Graf '' @ digits i) 3, Picture p 6])
                    (enumerate 1 images))
      in case docx_save w path items of Some e \<Rightarrow> Inl e | None \<Rightarrow> Inr path)"

section \<open>Main pipeline\<close>

text \<open>
  \<open>nonblank v\<close> is the string of \<open>v\<close> when the test \<^verbatim>\<open>v and v.strip()\<close> of
  \<^verbatim>\<open>load_df\<close> passes.
\<close>

definition nonblank :: "str option \<Rightarrow> str option" where
  "nonblank v =
     (case v of
        None \<Rightarrow> None
      | Some s \<Rightarrow> if truthy (Some s) \<and> truthy (Some (strip s)) then Some s else None)"

definition load_df ::
  "world \<Rightarrow> upload option \<Rightarrow> str option \<Rightarrow> str option \<Rightarrow> exn + dataframe option" where
  "load_df w file text_data url =
     (case file of
        Some f \<Rightarrow> and_then (read_csv w (Path (file_name f))) (\<lambda>df. Inr (Some df))
      | None \<Rightarrow>
          (case nonblank text_data of
             Some t \<Rightarrow> and_then (read_csv w (StringIO t)) (\<lambda>df. Inr (Some df))
           | None \<Rightarrow>
               (case nonblank url of
                  Some u \<Rightarrow> and_then (read_csv w (Path u)) (\<lambda>df. Inr (Some df))
                | None \<Rightarrow> Inr None)))"

text \<open>
  The eight values \<^verbatim>\<open>pipeline\<close> returns, named after the components they are
  shown in.
\<close>

record outputs =
  main_plot :: "figure option"
  line_plot :: "figure option"
  bar_plot :: "figure option"
  scatter_plot :: "figure option"
  map_plot :: "figure option"
  md :: str
  pdf_out :: "str option"
  docx_out :: "str option"

definition only_message :: "str \<Rightarrow> outputs" where
  "only_message msg =
     \<lparr>main_plot = None, line_plot = None, bar_plot = None, scatter_plot = None,
      map_plot = None, md = msg, pdf_out = None, docx_out = None\<rparr>"

definition default_title :: str where
  "default_title = bar_chart_sign @ lit '' Laporan AIzz Data Analyst''"

text \<open>The second \<^verbatim>\<open>try\<close> block of \<^verbatim>\<open>pipeline\<close> with its handler.\<close>

definition narrate :: "world \<Rightarrow> str option \<Rightarrow> dataframe \<Rightarrow> str" where
  "narrate w query df =
     (case and_then (head_to_string w df)
             (ask_ai w (or_else query (lit ''Terangkan trend utama''))) of
        Inl e \<Rightarrow> warning_sign @ lit '' Gagal AI: '' @ exn_str e
      | Inr s \<Rightarrow> s)"

text \<open>The body of the third \<^verbatim>\<open>try\<close> block: the images, then the two documents.\<close>

definition export_all ::
  "world \<Rightarrow> str option \<Rightarrow> str \<Rightarrow> figure list \<Rightarrow> exn + str \<times> str" where
  "export_all w title explanation all_figs =
     and_then (save_images w all_figs) (\<lambda>imgs.
     and_then (export_pdf w (or_else title default_title) explanation imgs) (\<lambda>pdf.
     and_then (export_docx w (or_else title default_title) explanation imgs) (\<lambda>docx.
       Inr (pdf, docx))))"

text \<open>
  \<^verbatim>\<open>pipeline\<close>. The result is \<open>Inl e\<close> when the exception \<open>e\<close> leaves the function.
  A figure is taken to be true in \<^verbatim>\<open>[mapfig] if mapfig else []\<close>.
\<close>

definition pipeline ::
  "world \<Rightarrow> upload option \<Rightarrow> str option \<Rightarrow> str option \<Rightarrow> str option \<Rightarrow> str option
     \<Rightarrow> exn + outputs" where
  "pipeline w file text_data url query title =
     (case load_df w file text_data url of
        Inl e \<Rightarrow> Inr (only_message (warning_sign @ lit '' Ralat baca data: '' @ exn_str e))
      | Inr None \<Rightarrow> Inr (only_message (warning_sign @ lit '' Tiada data''))
      | Inr (Some df) \<Rightarrow>
          (let explanation = narrate w query df in
           and_then (auto_chart df) (\<lambda>main.
           and_then (multi_graphs df) (\<lambda>figs.
           and_then (map_chart df) (\<lambda>mapfig.
             let all_figs = [main] @ figs @ (case mapfig of None \<Rightarrow> [] | Some m \<Rightarrow> [m]);
                 exported = export_all w title explanation all_figs;
                 pdf = (case exported of Inl e \<Rightarrow> None | Inr pd \<Rightarrow> Some (fst pd));
                 docx = (case exported of Inl e \<Rightarrow> None | Inr pd \<Rightarrow> Some (snd pd));
                 explanation' =
                   (case exported of
                      Inl e \<Rightarrow>
                        explanation @ [0x0A] @ warning_sign @ lit '' Gagal export: '' @ exn_str e
                    | Inr pd \<Rightarrow> explanation)
             in
               and_then (getitem figs 0) (\<lambda>f0.
               and_then (getitem figs 1) (\<lambda>f1.
               and_then (getitem figs 2) (\<lambda>f2.
                 Inr \<lparr>main_plot = Some main, line_plot = Some f0, bar_plot = Some f1,
                      scatter_plot = Some f2, map_plot = mapfig, md = explanation',
                      pdf_out = pdf, docx_out = docx\<rparr>))))))))"

section \<open>Properties stated in the specification's words\<close>

text \<open>
  An optional text input is blank when it is absent, empty or made of whitespace only.
\<close>

definition blank :: "str option \<Rightarrow> bool" where
  "blank v = (case v of None \<Rightarrow> True | Some s \<Rightarrow> list_all isspace s)"

text \<open>
  Following the specification's words: the geography aliases that denote a country or a
  top-level state, localized variants included. The alias list of \<^verbatim>\<open>map_chart\<close> pairs
  each English word with its Malay one: \<open>negeri\<close> with \<open>state\<close>, \<open>daerah\<close> with
  \<open>region\<close>, \<open>negara\<close> with \<open>country\<close>.
\<close>

definition denotes_country_or_state :: "str \<Rightarrow> bool" where
  "denotes_country_or_state a \<longleftrightarrow>
     a \<in> set [lit ''country'', lit ''negara'', lit ''state'', lit ''negeri'']"

section \<open>Example data\<close>

text \<open>Small data sets, as \<^verbatim>\<open>pd.read_csv\<close> returns them, and worlds to run the pipeline in.\<close>

definition names_csv :: str where
  "names_csv = lit ''name'' @ [0x0A] @ lit ''alice'' @ [0x0A] @ lit ''bob'' @ [0x0A]"

definition names_frame :: dataframe where
  "names_frame =
     \<lparr>columns = [(lit ''name'', Object)], rows = [[lit ''alice''], [lit ''bob'']]\<rparr>"

definition sales_csv :: str where
  "sales_csv =
     lit ''Year,sales'' @ [0x0A] @ lit ''2020,100'' @ [0x0A] @ lit ''2021,150'' @ [0x0A]"

definition sales_frame :: dataframe where
  "sales_frame =
     \<lparr>columns = [(lit ''Year'', Int64), (lit ''sales'', Int64)],
      rows = [[lit ''2020'', lit ''100''], [lit ''2021'', lit ''150'']]\<rparr>"

definition gdp_frame :: dataframe where
  "gdp_frame =
     \<lparr>columns = [(lit ''Country'', Object), (lit ''gdp'', Float64)],
      rows = [[lit ''Malaysia'', lit ''399.6''], [lit ''Japan'', lit ''4212.9'']]\<rparr>"

definition numbers_frame :: dataframe where
  "numbers_frame =
     \<lparr>columns = [(lit ''height'', Float64), (lit ''weight'', Int64)],
      rows = [[lit ''1.5'', lit ''50''], [lit ''1.8'', lit ''80'']]\<rparr>"

definition year_name_frame :: dataframe where
  "year_name_frame =
     \<lparr>columns = [(lit ''year'', Int64), (lit ''name'', Object)],
      rows = [[lit ''2020'', lit ''alice''], [lit ''2021'', lit ''bob'']]\<rparr>"

definition negeri_frame :: dataframe where
  "negeri_frame =
     \<lparr>columns = [(lit ''Negeri'', Object), (lit ''penduduk'', Int64)],
      rows = [[lit ''Johor'', lit ''4009670''], [lit ''Perak'', lit ''2496041'']]\<rparr>"

definition sales_url :: str where
  "sales_url = lit ''https://example.com/sales.csv''"

definition demo_world :: world where
  "demo_world =
     \<lparr>read_csv = (\<lambda>src.
        if src = StringIO names_csv then Inr names_frame
        else if src = StringIO sales_csv \<or> src = Path sales_url
               \<or> src = Path (lit ''/tmp/gradio/sales.csv'') then Inr sales_frame
        else Inl (Raised (lit ''No columns to parse from file''))),
      head_to_string = (\<lambda>df. Inr (lit ''(the first rows)'')),
      chat_completions_create = (\<lambda>req. Inr [Some (lit '' Nilai meningkat setiap tahun. '')]),
      gettempdir = lit ''/tmp'',
      write_image = (\<lambda>f path scale. None),
      pdf_build = (\<lambda>path story. None),
      docx_save = (\<lambda>path items. None)\<rparr>"

text \<open>The same world with the text-generation service unreachable.\<close>

definition offline_world :: world where
  "offline_world =
     demo_world\<lparr>chat_completions_create := (\<lambda>req. Inl (Raised (lit ''Connection error.'')))\<rparr>"

text \<open>The same world with no image export engine installed.\<close>

definition no_export_world :: world where
  "no_export_world =
     demo_world\<lparr>write_image := (\<lambda>f path scale. Some (Raised (lit ''Image export failed'')))\<rparr>"

section \<open>Basic facts\<close>

lemma getitem_Cons_0: "getitem (x # xs) 0 = Inr x"
  by (simp add: getitem_def)

lemma getitem_Nil: "getitem [] i = Inl (IndexError (lit ''list index out of range''))"
  by (simp add: getitem_def)

lemma and_then_Inr: "and_then (Inr v) f = f v"
  by (simp add: and_then_def)

lemma and_then_Inl: "and_then (Inl e) f = Inl e"
  by (simp add: and_then_def)

text \<open>A frame with a numeric column has a first column: \<^verbatim>\<open>df.columns[0]\<close> is in range.\<close>

lemma column_names_nonempty: "numeric_cols df \<noteq> [] \<Longrightarrow> column_names df \<noteq> []"
  by (auto simp: numeric_cols_def column_names_def)

lemmas frame_simps =
  numeric_cols_def non_numeric_cols_def column_names_def time_like_def geo_cols_def
  time_aliases_def geo_aliases_def world_aliases_def lower_def lower_cp_def lit_def

section \<open>Chart selection\<close>

text \<open>
  C2. For every dataset with zero numeric columns, the primary chart is the
  "no numeric data" placeholder (an empty scatter figure with the warning title, in the
  dark theme), the comparison panel is the empty list and the geographic chart is
  \<open>None\<close>; none of the three raises.
\<close>

theorem no_numeric_columns_placeholders:
  assumes "numeric_cols df = []"
  shows "auto_chart df =
           Inr (update_layout
                  (px_scatter None None None
                     (warning_sign @ lit '' Tiada data numerik ditemui.''))
                  plotly_dark)
         \<and> multi_graphs df = Inr []
         \<and> map_chart df = Inr None"
  using assms by (simp add: auto_chart_def multi_graphs_def map_chart_def)

theorem no_numeric_columns_placeholders_witness:
  "numeric_cols names_frame = []
   \<and> auto_chart names_frame =
       Inr (update_layout
              (px_scatter None None None
                 (warning_sign @ lit '' Tiada data numerik ditemui.''))
              plotly_dark)
   \<and> multi_graphs names_frame = Inr []
   \<and> map_chart names_frame = Inr None"
proof -
  have h: "numeric_cols names_frame = []"
    by (simp add: numeric_cols_def names_frame_def)
  from no_numeric_columns_placeholders [OF h] h show ?thesis by simp
qed

text \<open>
  C3. For every dataset with at least one numeric column \<open>y\<close> (the first one), the
  primary chart follows the first matching rule: when some column name, lowered, is a
  time-axis alias, a line chart of \<open>y\<close> against the first such column \<open>x\<close>, with
  markers; otherwise, when there is a non-numeric column, a bar chart of \<open>y\<close> grouped
  by the first non-numeric column, labelled with \<open>y\<close>; otherwise a scatter plot of
  the first column against \<open>y\<close>.
\<close>

theorem primary_chart_first_match:
  assumes "numeric_cols df = y # ys"
  shows "(\<forall>x xs. time_like df = x # xs \<longrightarrow>
            auto_chart df =
              Inr (update_layout
                     (px_line df x y (lit ''Trend '' @ y @ lit '' mengikut '' @ x) True)
                     plotly_dark))
       \<and> (\<forall>c cs. time_like df = [] \<and> non_numeric_cols df = c # cs \<longrightarrow>
            auto_chart df =
              Inr (update_layout
                     (px_bar df c y (lit ''Perbandingan '' @ y @ lit '' mengikut '' @ c) y)
                     plotly_dark))
       \<and> (time_like df = [] \<and> non_numeric_cols df = [] \<longrightarrow>
            (\<exists>c cs. column_names df = c # cs \<and>
               auto_chart df =
                 Inr (update_layout
                        (px_scatter (Some df) (Some c) (Some y)
                           (lit ''Hubungan '' @ c @ lit '' vs '' @ y))
                        plotly_dark)))"
proof (intro conjI allI impI)
  fix x xs
  assume "time_like df = x # xs"
  with assms show "auto_chart df =
      Inr (update_layout
             (px_line df x y (lit ''Trend '' @ y @ lit '' mengikut '' @ x) True)
             plotly_dark)"
    by (simp add: auto_chart_def getitem_Cons_0 and_then_Inr)
next
  fix c cs
  assume "time_like df = [] \<and> non_numeric_cols df = c # cs"
  with assms show "auto_chart df =
      Inr (update_layout
             (px_bar df c y (lit ''Perbandingan '' @ y @ lit '' mengikut '' @ c) y)
             plotly_dark)"
    by (simp add: auto_chart_def getitem_Cons_0 and_then_Inr)
next
  assume h: "time_like df = [] \<and> non_numeric_cols df = []"
  from assms have "column_names df \<noteq> []"
    using column_names_nonempty [of df] by simp
  then obtain c cs where c: "column_names df = c # cs"
    by (cases "column_names df") auto
  with assms h have "auto_chart df =
      Inr (update_layout
             (px_scatter (Some df) (Some c) (Some y)
                (lit ''Hubungan '' @ c @ lit '' vs '' @ y))
             plotly_dark)"
    by (simp add: auto_chart_def getitem_Cons_0 and_then_Inr)
  with c show "\<exists>c cs. column_names df = c # cs \<and>
      auto_chart df =
        Inr (update_layout
               (px_scatter (Some df) (Some c) (Some y)
                  (lit ''Hubungan '' @ c @ lit '' vs '' @ y))
               plotly_dark)"
    by blast
qed

text \<open>
  The three rules at work: \<open>Year\<close> matches the alias \<open>year\<close> whatever its case;
  \<open>Country\<close> is the first non-numeric column of a frame without a time axis; a frame
  of numbers only gets the scatter plot.
\<close>

theorem primary_chart_first_match_witness:
  "auto_chart sales_frame =
     Inr (update_layout
            (px_line sales_frame (lit ''Year'') (lit ''Year'')
               (lit ''Trend Year mengikut Year'') True)
            plotly_dark)
   \<and> auto_chart gdp_frame =
     Inr (update_layout
            (px_bar gdp_frame (lit ''Country'') (lit ''gdp'')
               (lit ''Perbandingan gdp mengikut Country'') (lit ''gdp''))
            plotly_dark)
   \<and> auto_chart numbers_frame =
     Inr (update_layout
            (px_scatter (Some numbers_frame) (Some (lit ''height'')) (Some (lit ''height''))
               (lit ''Hubungan height vs height''))
            plotly_dark)"
proof -
  have s1: "numeric_cols sales_frame = lit ''Year'' # [lit ''sales'']"
    and s2: "time_like sales_frame = lit ''Year'' # []"
    by (simp_all add: frame_simps sales_frame_def)
  have g1: "numeric_cols gdp_frame = lit ''gdp'' # []"
    and g2: "time_like gdp_frame = [] \<and> non_numeric_cols gdp_frame = lit ''Country'' # []"
    by (simp_all add: frame_simps gdp_frame_def)
  have n1: "numeric_cols numbers_frame = lit ''height'' # [lit ''weight'']"
    and n2: "time_like numbers_frame = [] \<and> non_numeric_cols numbers_frame = []"
    and n3: "column_names numbers_frame = [lit ''height'', lit ''weight'']"
    by (simp_all add: frame_simps numbers_frame_def)
  from primary_chart_first_match [OF s1] s2
  have a: "auto_chart sales_frame =
     Inr (update_layout
            (px_line sales_frame (lit ''Year'') (lit ''Year'')
               (lit ''Trend '' @ lit ''Year'' @ lit '' mengikut '' @ lit ''Year'') True)
            plotly_dark)"
    by blast
  from primary_chart_first_match [OF g1] g2
  have b: "auto_chart gdp_frame =
     Inr (update_layout
            (px_bar gdp_frame (lit ''Country'') (lit ''gdp'')
               (lit ''Perbandingan '' @ lit ''gdp'' @ lit '' mengikut '' @ lit ''Country'')
               (lit ''gdp''))
            plotly_dark)"
    by blast
  from primary_chart_first_match [OF n1] n2 n3
  have c: "auto_chart numbers_frame =
     Inr (update_layout
            (px_scatter (Some numbers_frame) (Some (lit ''height'')) (Some (lit ''height''))
               (lit ''Hubungan '' @ lit ''height'' @ lit '' vs '' @ lit ''height''))
            plotly_dark)"
    by auto
  from a b c show ?thesis by (simp add: lit_def)
qed

text \<open>
  C10. For every dataset with a numeric column and a time-axis column, the primary chart
  is a line chart whose y axis is the first numeric column \<open>y\<close> and whose x axis is
  the first time-axis column \<open>x\<close>; nothing keeps the two apart, so when the first
  numeric column is the time-axis column itself the chart plots it against itself.
\<close>

theorem time_axis_line_plots_first_numeric:
  assumes "numeric_cols df = y # ys" and "time_like df = x # xs"
  shows "\<exists>f. auto_chart df = Inr f \<and> fig_kind f = Line \<and> fig_x f = Some x \<and>
             fig_y f = Some y \<and> (x = y \<longrightarrow> fig_x f = fig_y f)"
  using assms
  by (simp add: auto_chart_def getitem_Cons_0 and_then_Inr px_line_def update_layout_def)

text \<open>
  Columns \<open>year\<close> (integers) and \<open>name\<close> (text): the only numeric column is the
  time axis, and the line chart is \<open>year\<close> against \<open>year\<close>.
\<close>

theorem time_axis_line_plots_first_numeric_witness:
  "numeric_cols year_name_frame = [lit ''year'']
   \<and> time_like year_name_frame = [lit ''year'']
   \<and> (\<exists>f. auto_chart year_name_frame = Inr f \<and> fig_kind f = Line \<and>
            fig_x f = Some (lit ''year'') \<and> fig_y f = Some (lit ''year''))"
proof -
  have n: "numeric_cols year_name_frame = lit ''year'' # []"
    and t: "time_like year_name_frame = lit ''year'' # []"
    by (simp_all add: frame_simps year_name_frame_def)
  from time_axis_line_plots_first_numeric [OF n t] n t show ?thesis by auto
qed

section \<open>Comparison panel\<close>

text \<open>
  C4. For every dataset, the comparison panel is empty when there is no numeric column;
  otherwise it is exactly three charts, a line chart (with markers), a bar chart
  (labelled with the values) and a scatter plot, in that order, each with the first
  column of the dataset as x and the first numeric column as y. Nothing else of the
  dataset is read: the time-axis and non-numeric columns that pick the primary chart
  play no part.
\<close>

theorem comparison_panel:
  "(numeric_cols df = [] \<longrightarrow> multi_graphs df = Inr [])
   \<and> (\<forall>y ys. numeric_cols df = y # ys \<longrightarrow>
        (\<exists>x xs. column_names df = x # xs \<and>
           multi_graphs df =
             Inr [update_layout
                    (px_line df x y
                       (chart_up_sign @ lit '' Line Chart '' @ y @ lit '' vs '' @ x) True)
                    plotly_dark,
                  update_layout
                    (px_bar df x y
                       (bar_chart_sign @ lit '' Bar Chart '' @ y @ lit '' vs '' @ x) y)
                    plotly_dark,
                  update_layout
                    (px_scatter (Some df) (Some x) (Some y)
                       (magnifier_sign @ lit '' Scatter Plot '' @ y @ lit '' vs '' @ x))
                    plotly_dark]))"
proof (intro conjI allI impI)
  assume "numeric_cols df = []"
  then show "multi_graphs df = Inr []" by (simp add: multi_graphs_def)
next
  fix y ys
  assume y: "numeric_cols df = y # ys"
  then have "column_names df \<noteq> []"
    using column_names_nonempty [of df] by simp
  then obtain x xs where x: "column_names df = x # xs"
    by (cases "column_names df") auto
  with y have "multi_graphs df =
      Inr [update_layout
             (px_line df x y
                (chart_up_sign @ lit '' Line Chart '' @ y @ lit '' vs '' @ x) True)
             plotly_dark,
           update_layout
             (px_bar df x y
                (bar_chart_sign @ lit '' Bar Chart '' @ y @ lit '' vs '' @ x) y)
             plotly_dark,
           update_layout
             (px_scatter (Some df) (Some x) (Some y)
                (magnifier_sign @ lit '' Scatter Plot '' @ y @ lit '' vs '' @ x))
             plotly_dark]"
    by (simp add: multi_graphs_def getitem_Cons_0 and_then_Inr Let_def)
  with x show "\<exists>x xs. column_names df = x # xs \<and>
      multi_graphs df =
        Inr [update_layout
               (px_line df x y
                  (chart_up_sign @ lit '' Line Chart '' @ y @ lit '' vs '' @ x) True)
               plotly_dark,
             update_layout
               (px_bar df x y
                  (bar_chart_sign @ lit '' Bar Chart '' @ y @ lit '' vs '' @ x) y)
               plotly_dark,
             update_layout
               (px_scatter (Some df) (Some x) (Some y)
                  (magnifier_sign @ lit '' Scatter Plot '' @ y @ lit '' vs '' @ x))
               plotly_dark]"
    by blast
qed

text \<open>
  A frame of text only has no panel. For \<open>Country, gdp\<close> the primary chart is the bar
  chart by \<open>Country\<close>, and the panel is the three charts of \<open>gdp\<close> against
  \<open>Country\<close>.
\<close>

theorem comparison_panel_witness:
  "multi_graphs names_frame = Inr []
   \<and> (case multi_graphs gdp_frame of
        Inl e \<Rightarrow> False
      | Inr figs \<Rightarrow>
          map fig_kind figs = [Line, Bar, Scatter] \<and>
          map fig_x figs = replicate 3 (Some (lit ''Country'')) \<and>
          map fig_y figs = replicate 3 (Some (lit ''gdp'')))"
proof -
  have n: "numeric_cols names_frame = []"
    by (simp add: frame_simps names_frame_def)
  have g: "numeric_cols gdp_frame = lit ''gdp'' # []"
    and c: "column_names gdp_frame = [lit ''Country'', lit ''gdp'']"
    by (simp_all add: frame_simps gdp_frame_def)
  from comparison_panel [of names_frame] n
  have a: "multi_graphs names_frame = Inr []" by blast
  from comparison_panel [of gdp_frame] g c
  have b: "multi_graphs gdp_frame =
      Inr [update_layout
             (px_line gdp_frame (lit ''Country'') (lit ''gdp'')
                (chart_up_sign @ lit '' Line Chart '' @ lit ''gdp'' @ lit '' vs '' @
                 lit ''Country'') True)
             plotly_dark,
           update_layout
             (px_bar gdp_frame (lit ''Country'') (lit ''gdp'')
                (bar_chart_sign @ lit '' Bar Chart '' @ lit ''gdp'' @ lit '' vs '' @
                 lit ''Country'') (lit ''gdp''))
             plotly_dark,
           update_layout
             (px_scatter (Some gdp_frame) (Some (lit ''Country'')) (Some (lit ''gdp''))
                (magnifier_sign @ lit '' Scatter Plot '' @ lit ''gdp'' @ lit '' vs '' @
                 lit ''Country''))
             plotly_dark]"
    by auto
  from a b show ?thesis
    by (simp add: px_line_def px_bar_def px_scatter_def update_layout_def
        numeral_3_eq_3)
qed

section \<open>Geographic chart\<close>

lemma geo_cols_empty_iff:
  "geo_cols df = [] \<longleftrightarrow> \<not> (\<exists>c \<in> set (column_names df). lower c \<in> set geo_aliases)"
  by (auto simp: geo_cols_def filter_empty_conv)

lemma geo_cols_head_alias:
  assumes "geo_cols df = geo # gs"
  shows "lower geo \<in> set geo_aliases"
proof -
  have "geo \<in> set (geo_cols df)" using assms by simp
  then show ?thesis by (simp add: geo_cols_def)
qed

text \<open>
  C5. For every dataset, \<^verbatim>\<open>map_chart\<close> returns (it does not raise), and what it returns
  is a chart if and only if some column name, lowered, is a geography alias and there is
  a numeric column; otherwise it is \<open>None\<close>.
\<close>

theorem geographic_chart_iff:
  "\<exists>r. map_chart df = Inr r \<and>
       (r \<noteq> None \<longleftrightarrow>
          (\<exists>c \<in> set (column_names df). lower c \<in> set geo_aliases) \<and> numeric_cols df \<noteq> [])"
proof (cases "geo_cols df = [] \<or> numeric_cols df = []")
  case True
  then have "map_chart df = Inr None" by (auto simp: map_chart_def)
  with True show ?thesis by (auto simp: geo_cols_empty_iff)
next
  case False
  then obtain g gs y ys where g: "geo_cols df = g # gs" and y: "numeric_cols df = y # ys"
    by (cases "geo_cols df"; cases "numeric_cols df") auto
  then have "\<exists>f. map_chart df = Inr (Some f)"
    by (simp add: map_chart_def getitem_Cons_0 and_then_Inr Let_def)
  moreover from False have "\<exists>c \<in> set (column_names df). lower c \<in> set geo_aliases"
    using geo_cols_empty_iff [of df] by blast
  ultimately show ?thesis using y by auto
qed

text \<open>
  \<open>Country, gdp\<close> has a map; a frame of text only has none, and neither has
  \<open>Year, sales\<close>, where no column is a geography alias.
\<close>

theorem geographic_chart_iff_witness:
  "(\<exists>f. map_chart gdp_frame = Inr (Some f))
   \<and> map_chart names_frame = Inr None
   \<and> map_chart sales_frame = Inr None"
proof -
  have g: "lit ''Country'' \<in> set (column_names gdp_frame)"
    "lower (lit ''Country'') \<in> set geo_aliases" "numeric_cols gdp_frame \<noteq> []"
    by (simp_all add: frame_simps gdp_frame_def)
  have n: "numeric_cols names_frame = []"
    by (simp add: frame_simps names_frame_def)
  have s: "\<not> (\<exists>c \<in> set (column_names sales_frame). lower c \<in> set geo_aliases)"
    by (simp add: frame_simps sales_frame_def)
  from geographic_chart_iff [of gdp_frame] g
  have a: "\<exists>f. map_chart gdp_frame = Inr (Some f)" by blast
  from geographic_chart_iff [of names_frame] n
  have b: "map_chart names_frame = Inr None" by auto
  from geographic_chart_iff [of sales_frame] s
  have c: "map_chart sales_frame = Inr None" by auto
  from a b c show ?thesis by blast
qed

text \<open>
  C6, as stated, fails: a column named \<open>Negeri\<close> (the Malay word for state, the
  localized variant of the alias \<open>state\<close>) is a geography column, and its chart is
  the regional choropleth of Malaysia, not a world choropleth.
\<close>

theorem geographic_chart_negeri_counterexample:
  "geo_cols negeri_frame = [lit ''Negeri'']
   \<and> denotes_country_or_state (lower (lit ''Negeri''))
   \<and> map_chart negeri_frame =
       Inr (Some (update_layout
                    (update_geos
                       (px_choropleth negeri_frame (Some malaysia_geojson)
                          (Some (lit ''properties.name'')) (lit ''Negeri'') None
                          (lit ''penduduk'') (lit ''Blues'')
                          (world_map_sign @ lit '' Peta Malaysia: penduduk''))
                       (lit ''locations'') False)
                    plotly_dark))
   \<and> locationmode
         (update_layout
            (update_geos
               (px_choropleth negeri_frame (Some malaysia_geojson)
                  (Some (lit ''properties.name'')) (lit ''Negeri'') None
                  (lit ''penduduk'') (lit ''Blues'')
                  (world_map_sign @ lit '' Peta Malaysia: penduduk''))
               (lit ''locations'') False)
            plotly_dark) = None"
proof -
  have g: "geo_cols negeri_frame = [lit ''Negeri'']"
    and n: "numeric_cols negeri_frame = [lit ''penduduk'']"
    by (simp_all add: frame_simps negeri_frame_def)
  have l: "lower (lit ''Negeri'') = lit ''negeri''"
    by (simp add: lower_def lower_cp_def lit_def)
  have w: "lit ''negeri'' \<notin> set world_aliases"
    by (simp add: world_aliases_def lit_def)
  have d: "denotes_country_or_state (lit ''negeri'')"
    by (simp add: denotes_country_or_state_def)
  have m: "map_chart negeri_frame =
       Inr (Some (update_layout
                    (update_geos
                       (px_choropleth negeri_frame (Some malaysia_geojson)
                          (Some (lit ''properties.name'')) (lit ''Negeri'') None
                          (lit ''penduduk'') (lit ''Blues'')
                          (world_map_sign @ lit '' Peta Malaysia: '' @ lit ''penduduk''))
                       (lit ''locations'') False)
                    plotly_dark))"
    using w by (simp add: map_chart_def g n l getitem_Cons_0 and_then_Inr Let_def)
  have t: "lit '' Peta Malaysia: '' @ lit ''penduduk'' = lit '' Peta Malaysia: penduduk''"
    by (simp add: lit_def)
  have k: "locationmode
         (update_layout
            (update_geos
               (px_choropleth negeri_frame (Some malaysia_geojson)
                  (Some (lit ''properties.name'')) (lit ''Negeri'') None
                  (lit ''penduduk'') (lit ''Blues'')
                  (world_map_sign @ lit '' Peta Malaysia: penduduk''))
               (lit ''locations'') False)
            plotly_dark) = None"
    by (simp add: update_layout_def update_geos_def px_choropleth_def)
  from g d m k show ?thesis by (simp only: l t)
qed

text \<open>
  C6, amended. For every dataset where the geographic chart is produced, with \<open>geo\<close>
  the first geography column and \<open>val\<close> the first numeric column: when \<open>geo\<close>,
  lowered, is \<open>country\<close>, \<open>negara\<close> or \<open>state\<close>, the chart is a world choropleth
  of \<open>val\<close> located by country names; otherwise \<open>geo\<close>, lowered, is \<open>negeri\<close>,
  \<open>daerah\<close> or \<open>region\<close>, and the chart is a choropleth of \<open>val\<close> against the
  fixed boundary file of the Malaysian states, keyed by \<open>properties.name\<close> and fitted
  to the locations.
\<close>

theorem geographic_chart_kind:
  assumes "geo_cols df = geo # gs" and "numeric_cols df = val # vs"
  shows "(lower geo \<in> set [lit ''country'', lit ''negara'', lit ''state''] \<longrightarrow>
            map_chart df =
              Inr (Some (update_layout
                           (px_choropleth df None None geo (Some (lit ''country names''))
                              val (lit ''Viridis'')
                              (globe_sign @ lit '' Peta Dunia: '' @ val))
                           plotly_dark)))
       \<and> (lower geo \<notin> set [lit ''country'', lit ''negara'', lit ''state''] \<longrightarrow>
            lower geo \<in> set [lit ''negeri'', lit ''daerah'', lit ''region''] \<and>
            map_chart df =
              Inr (Some (update_layout
                           (update_geos
                              (px_choropleth df (Some malaysia_geojson)
                                 (Some (lit ''properties.name'')) geo None val
                                 (lit ''Blues'')
                                 (world_map_sign @ lit '' Peta Malaysia: '' @ val))
                              (lit ''locations'') False)
                           plotly_dark)))"
proof (intro conjI impI)
  assume "lower geo \<in> set [lit ''country'', lit ''negara'', lit ''state'']"
  then have "lower geo \<in> set world_aliases" by (simp add: world_aliases_def)
  with assms show "map_chart df =
      Inr (Some (update_layout
                   (px_choropleth df None None geo (Some (lit ''country names''))
                      val (lit ''Viridis'')
                      (globe_sign @ lit '' Peta Dunia: '' @ val))
                   plotly_dark))"
    by (simp add: map_chart_def getitem_Cons_0 and_then_Inr Let_def)
next
  assume h: "lower geo \<notin> set [lit ''country'', lit ''negara'', lit ''state'']"
  have "lower geo \<in> set geo_aliases" using assms(1) by (rule geo_cols_head_alias)
  with h show "lower geo \<in> set [lit ''negeri'', lit ''daerah'', lit ''region'']"
    by (auto simp: geo_aliases_def)
next
  assume "lower geo \<notin> set [lit ''country'', lit ''negara'', lit ''state'']"
  then have "lower geo \<notin> set world_aliases" by (simp add: world_aliases_def)
  with assms show "map_chart df =
      Inr (Some (update_layout
                   (update_geos
                      (px_choropleth df (Some malaysia_geojson)
                         (Some (lit ''properties.name'')) geo None val
                         (lit ''Blues'')
                         (world_map_sign @ lit '' Peta Malaysia: '' @ val))
                      (lit ''locations'') False)
                   plotly_dark))"
    by (simp add: map_chart_def getitem_Cons_0 and_then_Inr Let_def)
qed

text \<open>\<open>Country, gdp\<close> gets the world map, \<open>Negeri, penduduk\<close> the map of Malaysia.\<close>

theorem geographic_chart_kind_witness:
  "map_chart gdp_frame =
     Inr (Some (update_layout
                  (px_choropleth gdp_frame None None (lit ''Country'')
                     (Some (lit ''country names'')) (lit ''gdp'') (lit ''Viridis'')
                     (globe_sign @ lit '' Peta Dunia: gdp''))
                  plotly_dark))
   \<and> map_chart negeri_frame =
     Inr (Some (update_layout
                  (update_geos
                     (px_choropleth negeri_frame (Some malaysia_geojson)
                        (Some (lit ''properties.name'')) (lit ''Negeri'') None
                        (lit ''penduduk'') (lit ''Blues'')
                        (world_map_sign @ lit '' Peta Malaysia: penduduk''))
                     (lit ''locations'') False)
                  plotly_dark))"
proof -
  have g1: "geo_cols gdp_frame = lit ''Country'' # []"
    and g2: "numeric_cols gdp_frame = lit ''gdp'' # []"
    and g3: "lower (lit ''Country'') \<in> set [lit ''country'', lit ''negara'', lit ''state'']"
    by (simp_all add: frame_simps gdp_frame_def)
  have n1: "geo_cols negeri_frame = lit ''Negeri'' # []"
    and n2: "numeric_cols negeri_frame = lit ''penduduk'' # []"
    and n3: "lower (lit ''Negeri'') \<notin> set [lit ''country'', lit ''negara'', lit ''state'']"
    by (simp_all add: frame_simps negeri_frame_def)
  from geographic_chart_kind [OF g1 g2] g3
  have a: "map_chart gdp_frame =
     Inr (Some (update_layout
                  (px_choropleth gdp_frame None None (lit ''Country'')
                     (Some (lit ''country names'')) (lit ''gdp'') (lit ''Viridis'')
                     (globe_sign @ lit '' Peta Dunia: '' @ lit ''gdp''))
                  plotly_dark))"
    by blast
  from geographic_chart_kind [OF n1 n2] n3
  have b: "map_chart negeri_frame =
     Inr (Some (update_layout
                  (update_geos
                     (px_choropleth negeri_frame (Some malaysia_geojson)
                        (Some (lit ''properties.name'')) (lit ''Negeri'') None
                        (lit ''penduduk'') (lit ''Blues'')
                        (world_map_sign @ lit '' Peta Malaysia: '' @ lit ''penduduk''))
                     (lit ''locations'') False)
                  plotly_dark))"
    by blast
  from a b show ?thesis by (simp add: lit_def)
qed

section \<open>Loading the data\<close>

lemma strip_empty_iff: "strip s = [] \<longleftrightarrow> list_all isspace s"
proof
  assume "strip s = []"
  then have all: "\<forall>c \<in> set (dropWhile isspace s). isspace c"
    by (simp add: strip_def dropWhile_eq_Nil_conv)
  show "list_all isspace s"
  proof (rule ccontr)
    assume "\<not> list_all isspace s"
    then have ne: "dropWhile isspace s \<noteq> []"
      by (simp add: dropWhile_eq_Nil_conv list_all_iff)
    then have "\<not> isspace (hd (dropWhile isspace s))" by (rule hd_dropWhile)
    moreover from ne have "hd (dropWhile isspace s) \<in> set (dropWhile isspace s)" by simp
    ultimately show False using all by blast
  qed
next
  assume "list_all isspace s"
  then have d: "dropWhile isspace s = []"
    by (simp add: dropWhile_eq_Nil_conv list_all_iff)
  show "strip s = []" by (simp only: strip_def d rev.simps dropWhile.simps)
qed

lemma nonblank_blank: "nonblank v = (if blank v then None else v)"
proof (cases v)
  case None
  then show ?thesis by (simp add: nonblank_def blank_def)
next
  case (Some s)
  have "list_all isspace s \<or> s \<noteq> []" by (cases s) auto
  with Some show ?thesis
    by (auto simp: nonblank_def blank_def truthy_def strip_empty_iff)
qed

text \<open>
  C7, as stated, fails: a pasted text that is not empty but holds whitespace only (here
  a single newline) is passed over, and the URL after it is read.
\<close>

theorem whitespace_text_counterexample:
  "[0x0A] \<noteq> ([] :: str)
   \<and> load_df demo_world None (Some [0x0A]) (Some sales_url) = Inr (Some sales_frame)
   \<and> read_csv demo_world (Path sales_url) = Inr sales_frame
   \<and> read_csv demo_world (StringIO [0x0A]) = Inl (Raised (lit ''No columns to parse from file''))"
  by (simp add: load_df_def nonblank_def truthy_def strip_def isspace_def demo_world_def
      and_then_def sales_url_def names_csv_def sales_csv_def lit_def)

text \<open>
  C7, amended. A file is present when one is given; a pasted text or a URL is present
  when it holds a character that is not whitespace. The first present source in the
  order file, pasted text, URL is the one handed to \<^verbatim>\<open>pd.read_csv\<close>, and what that call
  returns or raises is the result: the later sources are not looked at, present or not.
  When no source is present the pipeline returns the message "Tiada data" and \<open>None\<close>
  for every chart and document.
\<close>

theorem load_priority:
  "(\<forall>f. file = Some f \<longrightarrow>
      load_df w file text_data url =
        and_then (read_csv w (Path (file_name f))) (\<lambda>df. Inr (Some df)))
   \<and> (\<forall>t. file = None \<and> text_data = Some t \<and> \<not> blank text_data \<longrightarrow>
      load_df w file text_data url =
        and_then (read_csv w (StringIO t)) (\<lambda>df. Inr (Some df)))
   \<and> (\<forall>u. file = None \<and> blank text_data \<and> url = Some u \<and> \<not> blank url \<longrightarrow>
      load_df w file text_data url =
        and_then (read_csv w (Path u)) (\<lambda>df. Inr (Some df)))
   \<and> (file = None \<and> blank text_data \<and> blank url \<longrightarrow>
      load_df w file text_data url = Inr None \<and>
      pipeline w file text_data url query title =
        Inr \<lparr>main_plot = None, line_plot = None, bar_plot = None, scatter_plot = None,
             map_plot = None, md = warning_sign @ lit '' Tiada data'', pdf_out = None,
             docx_out = None\<rparr>)"
proof (intro conjI allI impI)
  fix f
  assume "file = Some f"
  then show "load_df w file text_data url =
      and_then (read_csv w (Path (file_name f))) (\<lambda>df. Inr (Some df))"
    by (simp add: load_df_def)
next
  fix t
  assume "file = None \<and> text_data = Some t \<and> \<not> blank text_data"
  then show "load_df w file text_data url =
      and_then (read_csv w (StringIO t)) (\<lambda>df. Inr (Some df))"
    by (auto simp: load_df_def nonblank_blank)
next
  fix u
  assume "file = None \<and> blank text_data \<and> url = Some u \<and> \<not> blank url"
  then show "load_df w file text_data url =
      and_then (read_csv w (Path u)) (\<lambda>df. Inr (Some df))"
    by (auto simp: load_df_def nonblank_blank)
next
  assume "file = None \<and> blank text_data \<and> blank url"
  then show "load_df w file text_data url = Inr None"
    by (simp add: load_df_def nonblank_blank)
next
  assume "file = None \<and> blank text_data \<and> blank url"
  then have "load_df w file text_data url = Inr None"
    by (simp add: load_df_def nonblank_blank)
  then show "pipeline w file text_data url query title =
      Inr \<lparr>main_plot = None, line_plot = None, bar_plot = None, scatter_plot = None,
           map_plot = None, md = warning_sign @ lit '' Tiada data'', pdf_out = None,
           docx_out = None\<rparr>"
    by (simp add: pipeline_def only_message_def)
qed

text \<open>
  In the example world: an uploaded file wins over a pasted text and a URL; without a
  file the pasted text wins over the URL; a pasted newline leaves the URL to be read;
  with an empty text box and no URL there is no data.
\<close>

theorem load_priority_witness:
  "load_df demo_world (Some (Upload (lit ''/tmp/gradio/sales.csv''))) (Some names_csv)
     (Some sales_url) = Inr (Some sales_frame)
   \<and> load_df demo_world None (Some names_csv) (Some sales_url) = Inr (Some names_frame)
   \<and> load_df demo_world None (Some [0x0A]) (Some sales_url) = Inr (Some sales_frame)
   \<and> pipeline demo_world None (Some []) None None None =
       Inr \<lparr>main_plot = None, line_plot = None, bar_plot = None, scatter_plot = None,
            map_plot = None, md = warning_sign @ lit '' Tiada data'', pdf_out = None,
            docx_out = None\<rparr>"
proof -
  have r1: "read_csv demo_world (Path (lit ''/tmp/gradio/sales.csv'')) = Inr sales_frame"
    and r2: "read_csv demo_world (StringIO names_csv) = Inr names_frame"
    and r3: "read_csv demo_world (Path sales_url) = Inr sales_frame"
    by (simp_all add: demo_world_def)
  have b1: "\<not> blank (Some names_csv)"
    and b2: "blank (Some [0x0A])"
    and b3: "\<not> blank (Some sales_url)"
    and b4: "blank (Some [])"
    and b5: "blank None"
    by (simp_all add: blank_def names_csv_def sales_url_def lit_def isspace_def)
  from load_priority [of "Some (Upload (lit ''/tmp/gradio/sales.csv''))" demo_world
      "Some names_csv" "Some sales_url"]
  have a: "load_df demo_world (Some (Upload (lit ''/tmp/gradio/sales.csv'')))
      (Some names_csv) (Some sales_url) = Inr (Some sales_frame)"
    by (simp add: r1 and_then_Inr)
  from load_priority [of None demo_world "Some names_csv" "Some sales_url"] b1
  have b: "load_df demo_world None (Some names_csv) (Some sales_url) = Inr (Some names_frame)"
    by (simp add: r2 and_then_Inr)
  from load_priority [of None demo_world "Some [0x0A]" "Some sales_url"] b2 b3
  have c: "load_df demo_world None (Some [0x0A]) (Some sales_url) = Inr (Some sales_frame)"
    by (simp add: r3 and_then_Inr)
  from load_priority [of None demo_world "Some []" None None None] b4 b5
  have d: "pipeline demo_world None (Some []) None None None =
       Inr \<lparr>main_plot = None, line_plot = None, bar_plot = None, scatter_plot = None,
            map_plot = None, md = warning_sign @ lit '' Tiada data'', pdf_out = None,
            docx_out = None\<rparr>"
    by simp
  from a b c d show ?thesis by blast
qed

section \<open>The pipeline\<close>

subsection \<open>The chart helpers always return\<close>

lemma auto_chart_returns: "\<exists>f. auto_chart df = Inr f"
proof (cases "numeric_cols df")
  case Nil
  then show ?thesis by (simp add: auto_chart_def)
next
  case (Cons y ys)
  then obtain c cs where c: "column_names df = c # cs"
    using column_names_nonempty [of df] by (cases "column_names df") auto
  show ?thesis
  proof (cases "time_like df")
    case tl: (Cons x xs)
    with Cons show ?thesis by (simp add: auto_chart_def getitem_Cons_0 and_then_Inr)
  next
    case tl: Nil
    show ?thesis
    proof (cases "non_numeric_cols df")
      case Nil
      with tl Cons c show ?thesis by (simp add: auto_chart_def getitem_Cons_0 and_then_Inr)
    next
      case nn: (Cons x xs)
      with tl Cons show ?thesis by (simp add: auto_chart_def getitem_Cons_0 and_then_Inr)
    qed
  qed
qed

lemma multi_graphs_three:
  assumes "numeric_cols df \<noteq> []"
  shows "\<exists>f1 f2 f3. multi_graphs df = Inr [f1, f2, f3]"
proof -
  from assms obtain y ys where y: "numeric_cols df = y # ys"
    by (cases "numeric_cols df") auto
  then obtain c cs where c: "column_names df = c # cs"
    using column_names_nonempty [of df] by (cases "column_names df") auto
  from y c show ?thesis
    by (simp add: multi_graphs_def getitem_Cons_0 and_then_Inr Let_def)
qed

lemma map_chart_returns: "\<exists>r. map_chart df = Inr r"
proof (cases "geo_cols df = [] \<or> numeric_cols df = []")
  case True
  then show ?thesis by (auto simp add: map_chart_def)
next
  case False
  then obtain g gs y ys where "geo_cols df = g # gs" "numeric_cols df = y # ys"
    by (cases "geo_cols df"; cases "numeric_cols df") auto
  then show ?thesis
    by (simp add: map_chart_def getitem_Cons_0 and_then_Inr Let_def)
qed

subsection \<open>The two ways out of \<^verbatim>\<open>pipeline\<close> once a dataset is loaded\<close>

text \<open>
  Without a numeric column the panel is empty, and \<^verbatim>\<open>figs[0]\<close> in the \<^verbatim>\<open>return\<close>
  statement raises, whatever the narrative request and the export did before.
\<close>

lemma pipeline_no_numeric:
  assumes "load_df w file text_data url = Inr (Some df)" and "numeric_cols df = []"
  shows "pipeline w file text_data url query title =
           Inl (IndexError (lit ''list index out of range''))"
  using assms
  by (simp add: pipeline_def auto_chart_def multi_graphs_def map_chart_def and_then_Inr
      and_then_Inl getitem_Nil Let_def)

lemma pipeline_numeric:
  assumes "load_df w file text_data url = Inr (Some df)" and "numeric_cols df \<noteq> []"
  shows "\<exists>main f1 f2 f3 mapfig.
           auto_chart df = Inr main \<and> multi_graphs df = Inr [f1, f2, f3] \<and>
           map_chart df = Inr mapfig \<and>
           pipeline w file text_data url query title =
             (let exported =
                    export_all w title (narrate w query df)
                      ([main, f1, f2, f3] @ (case mapfig of None \<Rightarrow> [] | Some m \<Rightarrow> [m]))
              in Inr \<lparr>main_plot = Some main, line_plot = Some f1, bar_plot = Some f2,
                      scatter_plot = Some f3, map_plot = mapfig,
                      md = (case exported of
                              Inl e \<Rightarrow> narrate w query df @ [0x0A] @ warning_sign @
                                       lit '' Gagal export: '' @ exn_str e
                            | Inr pd \<Rightarrow> narrate w query df),
                      pdf_out = (case exported of Inl e \<Rightarrow> None | Inr pd \<Rightarrow> Some (fst pd)),
                      docx_out = (case exported of Inl e \<Rightarrow> None | Inr pd \<Rightarrow> Some (snd pd))\<rparr>)"
proof -
  obtain main where m: "auto_chart df = Inr main" using auto_chart_returns by blast
  obtain f1 f2 f3 where f: "multi_graphs df = Inr [f1, f2, f3]"
    using multi_graphs_three [OF assms(2)] by blast
  obtain mapfig where g: "map_chart df = Inr mapfig" using map_chart_returns by blast
  have "pipeline w file text_data url query title =
             (let exported =
                    export_all w title (narrate w query df)
                      ([main, f1, f2, f3] @ (case mapfig of None \<Rightarrow> [] | Some m \<Rightarrow> [m]))
              in Inr \<lparr>main_plot = Some main, line_plot = Some f1, bar_plot = Some f2,
                      scatter_plot = Some f3, map_plot = mapfig,
                      md = (case exported of
                              Inl e \<Rightarrow> narrate w query df @ [0x0A] @ warning_sign @
                                       lit '' Gagal export: '' @ exn_str e
                            | Inr pd \<Rightarrow> narrate w query df),
                      pdf_out = (case exported of Inl e \<Rightarrow> None | Inr pd \<Rightarrow> Some (fst pd)),
                      docx_out = (case exported of Inl e \<Rightarrow> None | Inr pd \<Rightarrow> Some (snd pd))\<rparr>)"
    using assms(1) m f g
    by (simp add: pipeline_def and_then_Inr getitem_def Let_def)
  with m f g show ?thesis by blast
qed

subsection \<open>The example worlds\<close>

lemma load_names:
  assumes "read_csv w = read_csv demo_world"
  shows "load_df w None (Some names_csv) None = Inr (Some names_frame)"
  using assms
  by (simp add: load_df_def nonblank_def truthy_def strip_def names_csv_def lit_def
      isspace_def demo_world_def and_then_def)

lemma load_sales:
  assumes "read_csv w = read_csv demo_world"
  shows "load_df w None (Some sales_csv) None = Inr (Some sales_frame)"
  using assms
  by (simp add: load_df_def nonblank_def truthy_def strip_def names_csv_def sales_csv_def
      lit_def isspace_def demo_world_def and_then_def)

lemma names_no_numeric: "numeric_cols names_frame = []"
  by (simp add: numeric_cols_def names_frame_def)

lemma sales_numeric: "numeric_cols sales_frame \<noteq> []"
  by (simp add: numeric_cols_def sales_frame_def)

lemma sales_no_map: "map_chart sales_frame = Inr None"
  by (simp add: map_chart_def frame_simps sales_frame_def)

lemma narrate_offline:
  "narrate offline_world query df = warning_sign @ lit '' Gagal AI: Connection error.''"
  by (simp add: narrate_def ask_ai_def offline_world_def demo_world_def and_then_def
      Let_def lit_def)

lemma narrate_demo:
  assumes "head_to_string w = head_to_string demo_world"
    and "chat_completions_create w = chat_completions_create demo_world"
  shows "narrate w query df = lit ''Nilai meningkat setiap tahun.''"
  using assms
  by (simp add: narrate_def ask_ai_def demo_world_def and_then_def getitem_def strip_def
      isspace_def Let_def lit_def)

subsection \<open>Export\<close>

lemma save_images_from_returns:
  assumes "\<And>f p s. write_image w f p s = None"
  shows "\<exists>paths. save_images_from w i figs = Inr paths"
proof (induction figs arbitrary: i)
  case Nil
  show ?case by simp
next
  case (Cons f fs)
  from Cons [of "Suc i"] obtain ps where "save_images_from w (Suc i) fs = Inr ps" by blast
  then show ?case by (simp add: assms and_then_Inr Let_def del: digits.simps)
qed

lemma export_all_succeeds:
  assumes "\<And>f p s. write_image w f p s = None"
    and "\<And>p s. pdf_build w p s = None" and "\<And>p s. docx_save w p s = None"
  shows "export_all w title explanation figs =
           Inr (path_join (gettempdir w) (lit ''laporan.pdf''),
                path_join (gettempdir w) (lit ''laporan.docx''))"
proof -
  obtain paths where "save_images w figs = Inr paths"
    using save_images_from_returns [OF assms(1)] by (auto simp: save_images_def)
  then show ?thesis
    by (simp add: export_all_def export_pdf_def export_docx_def assms and_then_Inr Let_def)
qed

lemma export_all_no_images:
  assumes "\<And>f p s. write_image w f p s = Some e"
  shows "export_all w title explanation (f # fs) = Inl e"
  by (simp add: export_all_def save_images_def assms and_then_Inl Let_def del: digits.simps)

text \<open>
  The body of the export block fails exactly when writing an image, building the PDF or
  saving the DOCX fails, in that order.
\<close>

lemma export_all_fails_iff:
  "export_all w title explanation figs = Inl e \<longleftrightarrow>
     save_images w figs = Inl e
     \<or> (\<exists>imgs. save_images w figs = Inr imgs \<and>
           (export_pdf w (or_else title default_title) explanation imgs = Inl e
            \<or> (\<exists>pdf. export_pdf w (or_else title default_title) explanation imgs = Inr pdf \<and>
                  export_docx w (or_else title default_title) explanation imgs = Inl e)))"
  by (auto simp: export_all_def and_then_def split: sum.splits)

subsection \<open>Where an exception leaves the pipeline\<close>

text \<open>
  C1 does not hold of the code. The claim is that \<^verbatim>\<open>pipeline\<close> returns a result tuple
  for every input, datasets without a numeric column included. What the code does: for
  every world and every input whose dataset loads and has no numeric column, the
  \<^verbatim>\<open>return\<close> statement indexes the empty panel and an \<open>IndexError\<close> leaves the
  function; no tuple is returned and no message is shown.
\<close>

theorem pipeline_raises_without_numeric_column:
  assumes "load_df w file text_data url = Inr (Some df)" and "numeric_cols df = []"
  shows "pipeline w file text_data url query title =
           Inl (IndexError (lit ''list index out of range''))"
  using assms by (rule pipeline_no_numeric)

text \<open>The pasted text \<^verbatim>\<open>name\nalice\nbob\n\<close>, with every service working.\<close>

theorem pipeline_raises_without_numeric_column_witness:
  "load_df demo_world None (Some names_csv) None = Inr (Some names_frame)
   \<and> numeric_cols names_frame = []
   \<and> pipeline demo_world None (Some names_csv) None None None =
       Inl (IndexError (lit ''list index out of range''))"
proof -
  have l: "load_df demo_world None (Some names_csv) None = Inr (Some names_frame)"
    by (rule load_names) simp
  from pipeline_raises_without_numeric_column [OF l names_no_numeric] l names_no_numeric
  show ?thesis by blast
qed

text \<open>
  C8 does not hold of the code, by the defect of C1. With the text-generation service
  unreachable and a dataset without a numeric column, the narrative is replaced by the
  placeholder that embeds the error, but the run still ends in the \<open>IndexError\<close> of
  the \<^verbatim>\<open>return\<close> statement: no narrative is returned.
\<close>

theorem narrative_failure_then_index_error:
  "narrate offline_world None names_frame =
     warning_sign @ lit '' Gagal AI: Connection error.''
   \<and> pipeline offline_world None (Some names_csv) None None None =
       Inl (IndexError (lit ''list index out of range''))"
proof -
  have "load_df offline_world None (Some names_csv) None = Inr (Some names_frame)"
    by (rule load_names) (simp add: offline_world_def)
  then have "pipeline offline_world None (Some names_csv) None None None =
      Inl (IndexError (lit ''list index out of range''))"
    using names_no_numeric by (rule pipeline_no_numeric)
  then show ?thesis by (simp add: narrate_offline)
qed

text \<open>
  C9 does not hold of the code, by the defect of C1. With the image export failing and a
  dataset without a numeric column, the export block fails on the placeholder chart, and
  the run still ends in the \<open>IndexError\<close> of the \<^verbatim>\<open>return\<close> statement: neither the
  annotated narrative nor the chart is returned.
\<close>

theorem export_failure_then_index_error:
  "auto_chart names_frame =
     Inr (update_layout
            (px_scatter None None None (warning_sign @ lit '' Tiada data numerik ditemui.''))
            plotly_dark)
   \<and> export_all no_export_world None (narrate no_export_world None names_frame)
       [update_layout
          (px_scatter None None None (warning_sign @ lit '' Tiada data numerik ditemui.''))
          plotly_dark] = Inl (Raised (lit ''Image export failed''))
   \<and> pipeline no_export_world None (Some names_csv) None None None =
       Inl (IndexError (lit ''list index out of range''))"
proof -
  have "load_df no_export_world None (Some names_csv) None = Inr (Some names_frame)"
    by (rule load_names) (simp add: no_export_world_def)
  then have p: "pipeline no_export_world None (Some names_csv) None None None =
      Inl (IndexError (lit ''list index out of range''))"
    using names_no_numeric by (rule pipeline_no_numeric)
  have a: "auto_chart names_frame =
     Inr (update_layout
            (px_scatter None None None (warning_sign @ lit '' Tiada data numerik ditemui.''))
            plotly_dark)"
    using names_no_numeric by (simp add: auto_chart_def)
  have w: "\<And>f p s. write_image no_export_world f p s = Some (Raised (lit ''Image export failed''))"
    by (simp add: no_export_world_def)
  from p a export_all_no_images [of no_export_world, OF w] show ?thesis by simp
qed

subsection \<open>What the pipeline does when it returns\<close>

text \<open>
  An exception leaves \<^verbatim>\<open>pipeline\<close> exactly when a dataset was loaded and has no numeric
  column. In every other case (the load failed, there was no data, or the dataset has a
  numeric column) a result tuple is returned, whatever the services do.
\<close>

theorem pipeline_escape_iff:
  "(\<exists>e. pipeline w file text_data url query title = Inl e) \<longleftrightarrow>
   (\<exists>df. load_df w file text_data url = Inr (Some df) \<and> numeric_cols df = [])"
proof (cases "load_df w file text_data url")
  case (Inl e)
  then show ?thesis by (simp add: pipeline_def)
next
  case (Inr r)
  show ?thesis
  proof (cases r)
    case None
    with Inr show ?thesis by (simp add: pipeline_def)
  next
    case (Some df)
    with Inr have l: "load_df w file text_data url = Inr (Some df)" by simp
    show ?thesis
    proof (cases "numeric_cols df = []")
      case True
      with l pipeline_no_numeric [OF l True] show ?thesis by auto
    next
      case False
      from pipeline_numeric [OF l False, of query title]
      have "\<exists>out. pipeline w file text_data url query title = Inr out"
        by (auto simp: Let_def)
      with l False show ?thesis by auto
    qed
  qed
qed

text \<open>
  A failure to read the chosen source is reported: the result holds the message
  "Ralat baca data" with the error's text, and \<open>None\<close> everywhere else.
\<close>

theorem load_failure_reported:
  assumes "load_df w file text_data url = Inl e"
  shows "pipeline w file text_data url query title =
           Inr \<lparr>main_plot = None, line_plot = None, bar_plot = None, scatter_plot = None,
                map_plot = None, md = warning_sign @ lit '' Ralat baca data: '' @ exn_str e,
                pdf_out = None, docx_out = None\<rparr>"
  using assms by (simp add: pipeline_def only_message_def)

theorem load_failure_reported_witness:
  "pipeline demo_world None (Some (lit ''???'')) None None None =
     Inr \<lparr>main_plot = None, line_plot = None, bar_plot = None, scatter_plot = None,
          map_plot = None,
          md = warning_sign @ lit '' Ralat baca data: No columns to parse from file'',
          pdf_out = None, docx_out = None\<rparr>"
proof -
  have l: "load_df demo_world None (Some (lit ''???'')) None =
      Inl (Raised (lit ''No columns to parse from file''))"
    by (simp add: load_df_def nonblank_def truthy_def strip_def names_csv_def sales_csv_def
        lit_def isspace_def demo_world_def and_then_def)
  from load_failure_reported [OF l, of None None] show ?thesis by (simp add: lit_def)
qed

text \<open>
  When the dataset has a numeric column and the text-generation service fails with
  \<open>e\<close>, the narrative is the placeholder "Gagal AI" with the text of \<open>e\<close>; the
  charts are made as usual, the export runs with the placeholder as its text, and the
  tuple is returned with the placeholder as narrative (annotated when the export fails
  too).
\<close>

theorem narrative_failure_recovered:
  assumes "load_df w file text_data url = Inr (Some df)" and "numeric_cols df \<noteq> []"
    and "head_to_string w df = Inr h"
    and "\<And>req. chat_completions_create w req = Inl e"
  shows "\<exists>main f1 f2 f3 mapfig.
           auto_chart df = Inr main \<and> multi_graphs df = Inr [f1, f2, f3] \<and>
           map_chart df = Inr mapfig \<and>
           pipeline w file text_data url query title =
             (let placeholder = warning_sign @ lit '' Gagal AI: '' @ exn_str e;
                  exported =
                    export_all w title placeholder
                      ([main, f1, f2, f3] @ (case mapfig of None \<Rightarrow> [] | Some m \<Rightarrow> [m]))
              in Inr \<lparr>main_plot = Some main, line_plot = Some f1, bar_plot = Some f2,
                      scatter_plot = Some f3, map_plot = mapfig,
                      md = (case exported of
                              Inl e' \<Rightarrow> placeholder @ [0x0A] @ warning_sign @
                                        lit '' Gagal export: '' @ exn_str e'
                            | Inr pd \<Rightarrow> placeholder),
                      pdf_out = (case exported of Inl e' \<Rightarrow> None | Inr pd \<Rightarrow> Some (fst pd)),
                      docx_out = (case exported of Inl e' \<Rightarrow> None | Inr pd \<Rightarrow> Some (snd pd))\<rparr>)"
proof -
  have n: "narrate w query df = warning_sign @ lit '' Gagal AI: '' @ exn_str e"
    by (simp add: narrate_def ask_ai_def assms(3,4) and_then_def Let_def)
  from pipeline_numeric [OF assms(1,2), of query title] show ?thesis
    unfolding n Let_def .
qed

text \<open>
  Columns \<open>Year, sales\<close> with the service unreachable: the charts and both documents
  are returned, and the narrative is the placeholder.
\<close>

theorem narrative_failure_recovered_witness:
  "\<exists>main f1 f2 f3.
     auto_chart sales_frame = Inr main \<and> multi_graphs sales_frame = Inr [f1, f2, f3] \<and>
     pipeline offline_world None (Some sales_csv) None None None =
       Inr \<lparr>main_plot = Some main, line_plot = Some f1, bar_plot = Some f2,
            scatter_plot = Some f3, map_plot = None,
            md = warning_sign @ lit '' Gagal AI: Connection error.'',
            pdf_out = Some (lit ''/tmp/laporan.pdf''),
            docx_out = Some (lit ''/tmp/laporan.docx'')\<rparr>"
proof -
  have l: "load_df offline_world None (Some sales_csv) None = Inr (Some sales_frame)"
    by (rule load_sales) (simp add: offline_world_def)
  have h: "head_to_string offline_world sales_frame = Inr (lit ''(the first rows)'')"
    by (simp add: offline_world_def demo_world_def)
  have c: "\<And>req. chat_completions_create offline_world req =
      Inl (Raised (lit ''Connection error.''))"
    by (simp add: offline_world_def)
  have x: "\<And>t n figs. export_all offline_world t n figs =
      Inr (lit ''/tmp/laporan.pdf'', lit ''/tmp/laporan.docx'')"
  proof -
    fix t n figs
    have "export_all offline_world t n figs =
        Inr (path_join (gettempdir offline_world) (lit ''laporan.pdf''),
             path_join (gettempdir offline_world) (lit ''laporan.docx''))"
      by (rule export_all_succeeds) (simp_all add: offline_world_def demo_world_def)
    then show "export_all offline_world t n figs =
        Inr (lit ''/tmp/laporan.pdf'', lit ''/tmp/laporan.docx'')"
      by (simp add: path_join_def offline_world_def demo_world_def lit_def)
  qed
  from narrative_failure_recovered [OF l sales_numeric h c, of None None]
  show ?thesis
    by (auto simp: sales_no_map x Let_def lit_def)
qed

text \<open>
  When the dataset has a numeric column and the export block fails with \<open>e\<close> (an
  image, the PDF or the DOCX), the tuple is returned with the charts as the helpers
  made them, both documents \<open>None\<close>, and the narrative followed by a line
  "Gagal export" with the text of \<open>e\<close>.
\<close>

theorem export_failure_recovered:
  assumes "load_df w file text_data url = Inr (Some df)" and "numeric_cols df \<noteq> []"
    and "auto_chart df = Inr main" and "multi_graphs df = Inr figs"
    and "map_chart df = Inr mapfig"
    and "export_all w title (narrate w query df)
           ([main] @ figs @ (case mapfig of None \<Rightarrow> [] | Some m \<Rightarrow> [m])) = Inl e"
  shows "\<exists>f1 f2 f3. figs = [f1, f2, f3] \<and>
           pipeline w file text_data url query title =
             Inr \<lparr>main_plot = Some main, line_plot = Some f1, bar_plot = Some f2,
                  scatter_plot = Some f3, map_plot = mapfig,
                  md = narrate w query df @ [0x0A] @ warning_sign @
                       lit '' Gagal export: '' @ exn_str e,
                  pdf_out = None, docx_out = None\<rparr>"
proof -
  from pipeline_numeric [OF assms(1,2), of query title] assms(3,4,5)
  obtain f1 f2 f3 where f: "figs = [f1, f2, f3]"
    and p: "pipeline w file text_data url query title =
             (let exported =
                    export_all w title (narrate w query df)
                      ([main, f1, f2, f3] @ (case mapfig of None \<Rightarrow> [] | Some m \<Rightarrow> [m]))
              in Inr \<lparr>main_plot = Some main, line_plot = Some f1, bar_plot = Some f2,
                      scatter_plot = Some f3, map_plot = mapfig,
                      md = (case exported of
                              Inl e \<Rightarrow> narrate w query df @ [0x0A] @ warning_sign @
                                       lit '' Gagal export: '' @ exn_str e
                            | Inr pd \<Rightarrow> narrate w query df),
                      pdf_out = (case exported of Inl e \<Rightarrow> None | Inr pd \<Rightarrow> Some (fst pd)),
                      docx_out = (case exported of Inl e \<Rightarrow> None | Inr pd \<Rightarrow> Some (snd pd))\<rparr>)"
    by auto
  from assms(6) f have "export_all w title (narrate w query df)
      ([main, f1, f2, f3] @ (case mapfig of None \<Rightarrow> [] | Some m \<Rightarrow> [m])) = Inl e"
    by simp
  with p f show ?thesis by (simp add: Let_def)
qed

text \<open>
  Columns \<open>Year, sales\<close> with no image export: the four charts come back, the documents
  do not, and the narrative says why.
\<close>

theorem export_failure_recovered_witness:
  "\<exists>main f1 f2 f3.
     auto_chart sales_frame = Inr main \<and> multi_graphs sales_frame = Inr [f1, f2, f3] \<and>
     pipeline no_export_world None (Some sales_csv) None None None =
       Inr \<lparr>main_plot = Some main, line_plot = Some f1, bar_plot = Some f2,
            scatter_plot = Some f3, map_plot = None,
            md = lit ''Nilai meningkat setiap tahun.'' @ [0x0A] @ warning_sign @
                 lit '' Gagal export: Image export failed'',
            pdf_out = None, docx_out = None\<rparr>"
proof -
  have l: "load_df no_export_world None (Some sales_csv) None = Inr (Some sales_frame)"
    by (rule load_sales) (simp add: no_export_world_def)
  have n: "narrate no_export_world None sales_frame = lit ''Nilai meningkat setiap tahun.''"
    by (rule narrate_demo) (simp_all add: no_export_world_def)
  have w: "\<And>f p s. write_image no_export_world f p s = Some (Raised (lit ''Image export failed''))"
    by (simp add: no_export_world_def)
  obtain main where m: "auto_chart sales_frame = Inr main"
    using auto_chart_returns by blast
  obtain f1 f2 f3 where f: "multi_graphs sales_frame = Inr [f1, f2, f3]"
    using multi_graphs_three [OF sales_numeric] by blast
  have x: "export_all no_export_world None (narrate no_export_world None sales_frame)
      ([main] @ [f1, f2, f3] @ (case None of None \<Rightarrow> [] | Some m \<Rightarrow> [m])) =
      Inl (Raised (lit ''Image export failed''))"
    using export_all_no_images [of no_export_world, OF w] by simp
  from export_failure_recovered [OF l sales_numeric m f sales_no_map x] m f
  show ?thesis
    by (auto simp: n lit_def)
qed


end
